theory Spec2Isabelle
  imports Main "HOL-Library.Word" "HOL-Library.Sublist"
begin

section \<open>Data model of \<^verbatim>\<open>libopenage/error/stackanalyzer.cpp\<close>\<close>

text \<open>
  An address is a \<^verbatim>\<open>void *\<close> (equivalently a \<^verbatim>\<open>uintptr_t\<close>): a 64-bit word of which
  the code only uses equality. \<^verbatim>\<open>nullptr\<close> is the word 0.
\<close>

type_synonym addr = "64 word"

definition null :: addr where
  "null = 0"

text \<open>
  \<^verbatim>\<open>struct backtrace_symbol { std::string filename; unsigned int lineno;
  std::string functionname; void *pc; }\<close>, in the order the brace initialisers of the
  source fill it.
\<close>

record backtrace_symbol =
  filename :: string
  lineno :: "32 word"
  functionname :: string
  pc :: addr

text \<open>The only data member of \<^verbatim>\<open>StackAnalyzer\<close>: \<^verbatim>\<open>std::vector<void *> stack_addrs\<close>.\<close>

record StackAnalyzer =
  stack_addrs :: "addr list"

text \<open>
  \<^verbatim>\<open>std::vector::pop_back\<close> on an empty vector is undefined behaviour; the model makes it
  an error value instead of hiding it behind \<^term>\<open>butlast []\<close>.
\<close>

datatype error = PopBackOnEmpty

text \<open>
  The diagnostic side channel: \<^verbatim>\<open>backtrace_error_callback\<close> logs one entry made of the
  library's message and its error number.
\<close>

type_synonym log_entry = "string \<times> int"

definition skip_entry_frames :: nat where
  "skip_entry_frames = 1"

definition base_skip_frames :: nat where
  "base_skip_frames = 1"

section \<open>External collaborators\<close>

text \<open>
  \<^verbatim>\<open>util::demangle\<close> and \<^verbatim>\<open>util::symbol_name\<close> live outside this file; they are
  parameters of the model.
\<close>

record util =
  demangle :: "string \<Rightarrow> string"
  symbol_name :: "addr \<Rightarrow> bool \<Rightarrow> bool \<Rightarrow> string"

text \<open>
  libbacktrace answers a query by calling the callbacks it was handed. What the library
  does for one query is the list of the calls it makes, in order. A \<^verbatim>\<open>const char *\<close>
  argument that may be \<^verbatim>\<open>NULL\<close> is a \<^typ>\<open>string option\<close>.
\<close>

datatype simple_event =
  SimpleCallback addr
| SimpleError string int

datatype pcinfo_event =
  PcinfoCallback addr "string option" int "string option"
| PcinfoError string int

datatype syminfo_event =
  SyminfoCallback addr "string option"
| SyminfoError string int

record libbacktrace =
  backtrace_simple :: "nat \<Rightarrow> simple_event list"
  backtrace_pcinfo :: "addr \<Rightarrow> pcinfo_event list"
  backtrace_syminfo :: "addr \<Rightarrow> syminfo_event list"

text \<open>
  The build configuration selects one backend: libbacktrace (\<^verbatim>\<open>WITH_BACKTRACE\<close>), the
  Windows primitive \<^verbatim>\<open>RtlCaptureStackBackTrace\<close> (frames to skip, frames to capture),
  or \<^verbatim>\<open>backtrace\<close> of \<^verbatim>\<open>execinfo.h\<close> (its \<^verbatim>\<open>int size\<close> argument). Each buffer
  primitive is given by the addresses it writes to the front of the buffer; the count it
  returns is their number.
\<close>

datatype platform =
  WITH_BACKTRACE libbacktrace
| WIN32 "nat \<Rightarrow> nat \<Rightarrow> addr list"
| EXECINFO "int \<Rightarrow> addr list"

text \<open>
  The unwinder of \<^verbatim>\<open>execinfo.h\<close> on a call stack \<open>frames\<close> (most recent call first):
  it stores at most \<open>n\<close> addresses for the size \<open>n\<close> it is given, and none for a size
  that is not positive.
\<close>

definition execinfo_backtrace :: "addr list \<Rightarrow> int \<Rightarrow> addr list" where
  "execinfo_backtrace frames n = take (nat n) frames"

section \<open>Vectors and integer conversions\<close>

text \<open>\<^verbatim>\<open>std::vector<void *>::resize\<close>: truncate, or pad with null pointers.\<close>

definition resize :: "nat \<Rightarrow> addr list \<Rightarrow> addr list" where
  "resize n buffer = take n buffer @ replicate (n - length buffer) null"

text \<open>
  A primitive writing \<open>written\<close> to the front of \<^verbatim>\<open>buffer.data()\<close>. (Writing more than
  the buffer holds is outside the contract of both primitives; the theorems below that
  depend on it are stated for primitives that keep to the capacity.)
\<close>

definition store :: "addr list \<Rightarrow> addr list \<Rightarrow> addr list" where
  "store written buffer = written @ drop (length written) buffer"

text \<open>
  \<^verbatim>\<open>buffer.size()\<close> passed for the \<^verbatim>\<open>int size\<close> parameter of \<^verbatim>\<open>backtrace\<close>: the
  value modulo \<open>2^32\<close>, read as a signed 32-bit integer.
\<close>

definition int_of_size_t :: "nat \<Rightarrow> int" where
  "int_of_size_t n =
     (let m = int n mod 2 ^ 32 in if m < 2 ^ 31 then m else m - 2 ^ 32)"

section \<open>Capture: the three variants of \<^verbatim>\<open>StackAnalyzer::analyze\<close>\<close>

subsection \<open>libbacktrace\<close>

definition backtrace_error_callback :: "string \<Rightarrow> int \<Rightarrow> log_entry" where
  "backtrace_error_callback msg errorno = (msg, errorno)"

definition backtrace_simple_callback :: "StackAnalyzer \<Rightarrow> addr \<Rightarrow> StackAnalyzer" where
  "backtrace_simple_callback bt p = bt\<lparr>stack_addrs := stack_addrs bt @ [p]\<rparr>"

fun simple_event_step ::
  "simple_event \<Rightarrow> StackAnalyzer \<times> log_entry list \<Rightarrow> StackAnalyzer \<times> log_entry list" where
  "simple_event_step (SimpleCallback p) (bt, log) = (backtrace_simple_callback bt p, log)"
| "simple_event_step (SimpleError msg errorno) (bt, log) =
     (bt, log @ [backtrace_error_callback msg errorno])"

definition analyze_libbacktrace ::
  "libbacktrace \<Rightarrow> StackAnalyzer \<Rightarrow> StackAnalyzer \<times> log_entry list" where
  "analyze_libbacktrace lib this =
     fold simple_event_step (backtrace_simple lib base_skip_frames) (this, [])"

subsection \<open>Windows\<close>

text \<open>
  \<^verbatim>\<open>std::vector<void *> buffer{64}\<close> is a vector of 64 null pointers: \<open>64\<close> is no null
  pointer constant, so the initializer-list constructor does not apply and the size
  constructor is chosen. The primitive is asked to skip \<open>base_skip_frames\<close> frames and to
  capture at most \<^verbatim>\<open>buffer.size()\<close>; the vector is assigned to \<^verbatim>\<open>this->stack_addrs\<close>.
\<close>

definition analyze_windows :: "(nat \<Rightarrow> nat \<Rightarrow> addr list) \<Rightarrow> StackAnalyzer \<Rightarrow> StackAnalyzer" where
  "analyze_windows RtlCaptureStackBackTrace this =
     (let buffer = replicate 64 null;
          written = RtlCaptureStackBackTrace base_skip_frames (length buffer);
          count = length written;
          buffer' = store written buffer;
          buffer'' = (if count < length buffer then resize count buffer' else buffer')
      in this\<lparr>stack_addrs := buffer''\<rparr>)"

subsection \<open>execinfo\<close>

text \<open>
  The \<^verbatim>\<open>while (true)\<close> loop. It has no bound of its own, so it is a partial function:
  \<^term>\<open>None\<close> is the loop that never leaves.
\<close>

partial_function (option) fill_buffer :: "(int \<Rightarrow> addr list) \<Rightarrow> addr list \<Rightarrow> addr list option" where
  "fill_buffer backtrace buffer =
     (let written = backtrace (int_of_size_t (length buffer));
          elements = int (length written);
          buffer' = store written buffer
      in if elements < int (length buffer)
         then Some (resize (nat elements) buffer')
         else fill_buffer backtrace (resize (length buffer * 2) buffer'))"

text \<open>The storing loop with its running index \<^verbatim>\<open>idx\<close>.\<close>

fun store_frames :: "nat \<Rightarrow> addr list \<Rightarrow> addr list \<Rightarrow> addr list" where
  "store_frames idx [] addrs = addrs"
| "store_frames idx (element # buffer) addrs =
     store_frames (idx + 1) buffer
       (if idx \<ge> base_skip_frames then addrs @ [element] else addrs)"

text \<open>The loop \<^verbatim>\<open>for (i = 0; i < skip_entry_frames; i++) stack_addrs.pop_back()\<close>.\<close>

fun pop_entry_frames :: "nat \<Rightarrow> addr list \<Rightarrow> error + addr list" where
  "pop_entry_frames 0 addrs = Inr addrs"
| "pop_entry_frames (Suc n) addrs =
     (if addrs = [] then Inl PopBackOnEmpty else pop_entry_frames n (butlast addrs))"

definition analyze_execinfo ::
  "(int \<Rightarrow> addr list) \<Rightarrow> StackAnalyzer \<Rightarrow> (error + StackAnalyzer) option" where
  "analyze_execinfo backtrace this =
     (case fill_buffer backtrace (replicate 64 null) of
        None \<Rightarrow> None
      | Some buffer \<Rightarrow>
          (case pop_entry_frames skip_entry_frames (store_frames 0 buffer (stack_addrs this)) of
             Inl e \<Rightarrow> Some (Inl e)
           | Inr addrs \<Rightarrow> Some (Inr (this\<lparr>stack_addrs := addrs\<rparr>))))"

subsection \<open>The variant the build selects\<close>

text \<open>
  \<^term>\<open>None\<close> is a capture that does not return, \<^term>\<open>Some (Inl e)\<close> one that runs into
  undefined behaviour, \<^term>\<open>Some (Inr s)\<close> one that returns with the instance \<open>s\<close>. The
  log of the libbacktrace variant is a side channel and not part of the instance.
\<close>

definition analyze :: "platform \<Rightarrow> StackAnalyzer \<Rightarrow> (error + StackAnalyzer) option" where
  "analyze p this =
     (case p of
        WITH_BACKTRACE lib \<Rightarrow> Some (Inr (fst (analyze_libbacktrace lib this)))
      | WIN32 rtl \<Rightarrow> Some (Inr (analyze_windows rtl this))
      | EXECINFO backtrace \<Rightarrow> analyze_execinfo backtrace this)"

section \<open>Resolution: the two variants of \<^verbatim>\<open>StackAnalyzer::get_symbols\<close>\<close>

text \<open>
  The callback \<^verbatim>\<open>cb\<close> is a consumer; a call of \<^verbatim>\<open>get_symbols\<close> is modelled by the list
  of the records it hands to \<^verbatim>\<open>cb\<close>, in the order of the calls.
\<close>

subsection \<open>libbacktrace\<close>

text \<open>
  \<^verbatim>\<open>struct info_cb_data_t { std::vector<backtrace_symbol> symbols; uintptr_t pc; }\<close>. The
  field \<^verbatim>\<open>pc\<close> is named \<open>query_pc\<close> here, since a record field named \<open>pc\<close> exists
  already. It is not initialised by the source and is set before each query; the model
  starts it at \<^term>\<open>null\<close>.
\<close>

record info_cb_data_t =
  symbols :: "backtrace_symbol list"
  query_pc :: addr

definition backtrace_syminfo_callback ::
  "util \<Rightarrow> info_cb_data_t \<Rightarrow> addr \<Rightarrow> string option \<Rightarrow> info_cb_data_t" where
  "backtrace_syminfo_callback u data p symname =
     data\<lparr>symbols := symbols data @
       [\<lparr>filename = '''',
         lineno = 0,
         functionname = (case symname of None \<Rightarrow> '''' | Some s \<Rightarrow> demangle u s),
         pc = p\<rparr>]\<rparr>"

definition backtrace_pcinfo_callback ::
  "util \<Rightarrow> info_cb_data_t \<Rightarrow> addr \<Rightarrow> string option \<Rightarrow> int \<Rightarrow> string option \<Rightarrow> info_cb_data_t" where
  "backtrace_pcinfo_callback u data p fname line function =
     (case function of
        None \<Rightarrow>
          data\<lparr>symbols := symbols data @
            [\<lparr>filename = '''',
              lineno = 0,
              functionname = symbol_name u p False True,
              pc = p\<rparr>]\<rparr>
      | Some f \<Rightarrow>
          data\<lparr>symbols := symbols data @
            [\<lparr>filename = (case fname of None \<Rightarrow> '''' | Some n \<Rightarrow> n),
              lineno = word_of_int line,
              functionname = demangle u f,
              pc = p\<rparr>]\<rparr>)"

fun syminfo_event_step ::
  "util \<Rightarrow> syminfo_event \<Rightarrow> info_cb_data_t \<times> log_entry list \<Rightarrow> info_cb_data_t \<times> log_entry list" where
  "syminfo_event_step u (SyminfoCallback p symname) (data, log) =
     (backtrace_syminfo_callback u data p symname, log)"
| "syminfo_event_step u (SyminfoError msg errorno) (data, log) =
     (data, log @ [backtrace_error_callback msg errorno])"

definition backtrace_pcinfo_error_callback ::
  "libbacktrace \<Rightarrow> util \<Rightarrow> info_cb_data_t \<times> log_entry list \<Rightarrow> string \<Rightarrow> int \<Rightarrow>
     info_cb_data_t \<times> log_entry list" where
  "backtrace_pcinfo_error_callback lib u st msg errorno =
     (if errorno = - 1
      then fold (syminfo_event_step u) (backtrace_syminfo lib (query_pc (fst st))) st
      else (fst st, snd st @ [backtrace_error_callback msg errorno]))"

fun pcinfo_event_step ::
  "libbacktrace \<Rightarrow> util \<Rightarrow> pcinfo_event \<Rightarrow> info_cb_data_t \<times> log_entry list \<Rightarrow>
     info_cb_data_t \<times> log_entry list" where
  "pcinfo_event_step lib u (PcinfoCallback p fname line function) (data, log) =
     (backtrace_pcinfo_callback u data p fname line function, log)"
| "pcinfo_event_step lib u (PcinfoError msg errorno) (data, log) =
     backtrace_pcinfo_error_callback lib u (data, log) msg errorno"

text \<open>One round of the loop over \<^verbatim>\<open>this->stack_addrs\<close>.\<close>

definition resolve_pc ::
  "libbacktrace \<Rightarrow> util \<Rightarrow> addr \<Rightarrow> info_cb_data_t \<times> log_entry list \<Rightarrow>
     info_cb_data_t \<times> log_entry list" where
  "resolve_pc lib u p st =
     fold (pcinfo_event_step lib u) (backtrace_pcinfo lib p) ((fst st)\<lparr>query_pc := p\<rparr>, snd st)"

text \<open>The loop \<^verbatim>\<open>for (size_t idx = v.size(); idx-- > 0;) cb(&v[idx])\<close>.\<close>

fun emit_reversed :: "backtrace_symbol list \<Rightarrow> nat \<Rightarrow> backtrace_symbol list" where
  "emit_reversed v 0 = []"
| "emit_reversed v (Suc idx) = v ! idx # emit_reversed v idx"

definition get_symbols_libbacktrace ::
  "libbacktrace \<Rightarrow> util \<Rightarrow> StackAnalyzer \<Rightarrow> bool \<Rightarrow> backtrace_symbol list \<times> log_entry list" where
  "get_symbols_libbacktrace lib u this reversed =
     (let st = fold (resolve_pc lib u) (stack_addrs this) (\<lparr>symbols = [], query_pc = null\<rparr>, []);
          v = symbols (fst st)
      in (if reversed then emit_reversed v (length v) else v, snd st))"

subsection \<open>Without libbacktrace (Windows and execinfo)\<close>

text \<open>
  One local \<^verbatim>\<open>symbol\<close> is reused: each round overwrites its function name and its
  address and hands it to \<^verbatim>\<open>cb\<close>. Its function name starts empty and its address is
  not initialised (\<^term>\<open>null\<close> in the model); both are written before the first call
  of \<^verbatim>\<open>cb\<close>.
\<close>

definition name_symbol :: "util \<Rightarrow> backtrace_symbol \<Rightarrow> addr \<Rightarrow> backtrace_symbol" where
  "name_symbol u symbol p = symbol\<lparr>functionname := symbol_name u p False True, pc := p\<rparr>"

fun emit_named :: "util \<Rightarrow> backtrace_symbol \<Rightarrow> addr list \<Rightarrow> backtrace_symbol list" where
  "emit_named u symbol [] = []"
| "emit_named u symbol (p # ps) = name_symbol u symbol p # emit_named u (name_symbol u symbol p) ps"

fun emit_named_reversed ::
  "util \<Rightarrow> backtrace_symbol \<Rightarrow> addr list \<Rightarrow> nat \<Rightarrow> backtrace_symbol list" where
  "emit_named_reversed u symbol addrs 0 = []"
| "emit_named_reversed u symbol addrs (Suc idx) =
     name_symbol u symbol (addrs ! idx) #
       emit_named_reversed u (name_symbol u symbol (addrs ! idx)) addrs idx"

definition get_symbols_fallback :: "util \<Rightarrow> StackAnalyzer \<Rightarrow> bool \<Rightarrow> backtrace_symbol list" where
  "get_symbols_fallback u this reversed =
     (let symbol = \<lparr>filename = '''', lineno = 0, functionname = '''', pc = null\<rparr>
      in if reversed
         then emit_named_reversed u symbol (stack_addrs this) (length (stack_addrs this))
         else emit_named u symbol (stack_addrs this))"

section \<open>Trimming: \<^verbatim>\<open>StackAnalyzer::trim_to_current_stack_frame\<close>\<close>

text \<open>
  The \<^verbatim>\<open>while\<close> loop on the two vectors: \<^verbatim>\<open>back()\<close> is \<^term>\<open>last\<close> and
  \<^verbatim>\<open>pop_back()\<close> is \<^term>\<open>butlast\<close>, both reached on non-empty vectors only.
\<close>

function trim_loop :: "addr list \<Rightarrow> addr list \<Rightarrow> addr list \<times> addr list" where
  "trim_loop this_addrs current_addrs =
     (if current_addrs \<noteq> [] \<and> this_addrs \<noteq> []
      then (if last this_addrs \<noteq> last current_addrs
            then (this_addrs, current_addrs)
            else trim_loop (butlast this_addrs) (butlast current_addrs))
      else (this_addrs, current_addrs))"
  by pat_completeness auto
termination
  by (relation "measure (\<lambda>(this_addrs, current_addrs). length this_addrs)") auto

text \<open>The number of times the body of the loop runs to its end (a ghost counter).\<close>

function trim_iterations :: "addr list \<Rightarrow> addr list \<Rightarrow> nat" where
  "trim_iterations this_addrs current_addrs =
     (if current_addrs \<noteq> [] \<and> this_addrs \<noteq> []
      then (if last this_addrs \<noteq> last current_addrs
            then 0
            else Suc (trim_iterations (butlast this_addrs) (butlast current_addrs)))
      else 0)"
  by pat_completeness auto
termination
  by (relation "measure (\<lambda>(this_addrs, current_addrs). length this_addrs)") auto

text \<open>
  \<^verbatim>\<open>StackAnalyzer current; current.analyze();\<close> captures into a fresh instance; the loop
  then works on the receiver and on that local instance, which is dropped.
\<close>

definition trim_to_current_stack_frame ::
  "platform \<Rightarrow> StackAnalyzer \<Rightarrow> (error + StackAnalyzer) option" where
  "trim_to_current_stack_frame p this =
     (case analyze p \<lparr>stack_addrs = []\<rparr> of
        None \<Rightarrow> None
      | Some (Inl e) \<Rightarrow> Some (Inl e)
      | Some (Inr current) \<Rightarrow>
          Some (Inr (this\<lparr>stack_addrs := fst (trim_loop (stack_addrs this) (stack_addrs current))\<rparr>)))"

section \<open>Notions of the specification\<close>

text \<open>
  The longest common suffix of two sequences, computed from the back: the reverse of the
  longest common prefix of the reversed sequences. The lemmas \<open>lcs_suffix1\<close>,
  \<open>lcs_suffix2\<close> and \<open>lcs_max\<close> below show that it is a suffix of both and that every
  common suffix is a suffix of it.
\<close>

definition longest_common_suffix :: "'a list \<Rightarrow> 'a list \<Rightarrow> 'a list" where
  "longest_common_suffix xs ys = rev (longest_common_prefix (rev xs) (rev ys))"

text \<open>
  What one address contributes to a run of the libbacktrace \<^verbatim>\<open>get_symbols\<close>: the records
  and the log entries that one round of its loop, started on an empty vector and an empty
  log, leaves behind.
\<close>

definition records_for :: "libbacktrace \<Rightarrow> util \<Rightarrow> addr \<Rightarrow> backtrace_symbol list" where
  "records_for lib u p = symbols (fst (resolve_pc lib u p (\<lparr>symbols = [], query_pc = null\<rparr>, [])))"

definition log_for :: "libbacktrace \<Rightarrow> util \<Rightarrow> addr \<Rightarrow> log_entry list" where
  "log_for lib u p = snd (resolve_pc lib u p (\<lparr>symbols = [], query_pc = null\<rparr>, []))"

text \<open>
  Closed forms used in the proofs: the records and log entries that a single call of the
  library adds. The lemmas \<open>pcinfo_step_eq\<close> and \<open>syminfo_step_eq\<close> show that the
  callbacks of the source add exactly these.
\<close>

fun syminfo_records :: "util \<Rightarrow> syminfo_event \<Rightarrow> backtrace_symbol list" where
  "syminfo_records u (SyminfoCallback p symname) =
     [\<lparr>filename = '''', lineno = 0,
       functionname = (case symname of None \<Rightarrow> '''' | Some s \<Rightarrow> demangle u s), pc = p\<rparr>]"
| "syminfo_records u (SyminfoError msg errorno) = []"

fun syminfo_log :: "syminfo_event \<Rightarrow> log_entry list" where
  "syminfo_log (SyminfoCallback p symname) = []"
| "syminfo_log (SyminfoError msg errorno) = [(msg, errorno)]"

fun pcinfo_records :: "libbacktrace \<Rightarrow> util \<Rightarrow> addr \<Rightarrow> pcinfo_event \<Rightarrow> backtrace_symbol list" where
  "pcinfo_records lib u q (PcinfoCallback p fname line None) =
     [\<lparr>filename = '''', lineno = 0, functionname = symbol_name u p False True, pc = p\<rparr>]"
| "pcinfo_records lib u q (PcinfoCallback p fname line (Some f)) =
     [\<lparr>filename = (case fname of None \<Rightarrow> '''' | Some n \<Rightarrow> n), lineno = word_of_int line,
       functionname = demangle u f, pc = p\<rparr>]"
| "pcinfo_records lib u q (PcinfoError msg errorno) =
     (if errorno = - 1 then concat (map (syminfo_records u) (backtrace_syminfo lib q)) else [])"

fun pcinfo_log :: "libbacktrace \<Rightarrow> addr \<Rightarrow> pcinfo_event \<Rightarrow> log_entry list" where
  "pcinfo_log lib q (PcinfoCallback p fname line function) = []"
| "pcinfo_log lib q (PcinfoError msg errorno) =
     (if errorno = - 1 then concat (map syminfo_log (backtrace_syminfo lib q)) else [(msg, errorno)])"

text \<open>
  The library answers the query for an address when it calls the record callback at least
  once, or reports the not-found condition (error number \<open>-1\<close>) and then calls the
  callback of the symbol-table query.
\<close>

fun is_pcinfo_callback :: "pcinfo_event \<Rightarrow> bool" where
  "is_pcinfo_callback (PcinfoCallback p fname line function) = True"
| "is_pcinfo_callback (PcinfoError msg errorno) = False"

fun is_not_found :: "pcinfo_event \<Rightarrow> bool" where
  "is_not_found (PcinfoCallback p fname line function) = False"
| "is_not_found (PcinfoError msg errorno) = (errorno = - 1)"

fun is_syminfo_callback :: "syminfo_event \<Rightarrow> bool" where
  "is_syminfo_callback (SyminfoCallback p symname) = True"
| "is_syminfo_callback (SyminfoError msg errorno) = False"

definition answered :: "libbacktrace \<Rightarrow> addr \<Rightarrow> bool" where
  "answered lib p =
     (list_ex is_pcinfo_callback (backtrace_pcinfo lib p) \<or>
      (list_ex is_not_found (backtrace_pcinfo lib p) \<and>
       list_ex is_syminfo_callback (backtrace_syminfo lib p)))"

section \<open>Facts about the vectors and loops\<close>

lemma resize_length: "length (resize n buffer) = n"
  by (simp add: resize_def)


lemma emit_reversed_rev: "n \<le> length v \<Longrightarrow> emit_reversed v n = rev (take n v)"
  by (induction n) (simp_all add: take_Suc_conv_app_nth)

lemma name_symbol_eq:
  "name_symbol u s p =
     \<lparr>filename = filename s, lineno = lineno s, functionname = symbol_name u p False True, pc = p\<rparr>"
  by (simp add: name_symbol_def)

lemma emit_named_map:
  "emit_named u s ps =
     map (\<lambda>p. \<lparr>filename = filename s, lineno = lineno s,
                functionname = symbol_name u p False True, pc = p\<rparr>) ps"
  by (induction ps arbitrary: s) (simp_all add: name_symbol_eq)

lemma emit_named_reversed_map:
  "n \<le> length addrs \<Longrightarrow>
   emit_named_reversed u s addrs n =
     map (\<lambda>p. \<lparr>filename = filename s, lineno = lineno s,
                functionname = symbol_name u p False True, pc = p\<rparr>) (rev (take n addrs))"
  by (induction n arbitrary: s) (simp_all add: name_symbol_eq take_Suc_conv_app_nth)

lemma get_symbols_fallback_eq:
  "get_symbols_fallback u this reversed =
     map (\<lambda>p. \<lparr>filename = '''', lineno = 0, functionname = symbol_name u p False True, pc = p\<rparr>)
       (if reversed then rev (stack_addrs this) else stack_addrs this)"
  by (simp add: get_symbols_fallback_def emit_named_map emit_named_reversed_map)

declare trim_loop.simps [simp del] trim_iterations.simps [simp del]

lemma trim_loop_snoc:
  "trim_loop (R0 @ [a]) (C0 @ [b]) = (if a \<noteq> b then (R0 @ [a], C0 @ [b]) else trim_loop R0 C0)"
  by (subst trim_loop.simps) simp

lemma trim_loop_empty: "C = [] \<or> R = [] \<Longrightarrow> trim_loop R C = (R, C)"
  by (subst trim_loop.simps) auto

lemma trim_iterations_snoc:
  "trim_iterations (R0 @ [a]) (C0 @ [b]) = (if a \<noteq> b then 0 else Suc (trim_iterations R0 C0))"
  by (subst trim_iterations.simps) simp

lemma trim_iterations_empty: "C = [] \<or> R = [] \<Longrightarrow> trim_iterations R C = 0"
  by (subst trim_iterations.simps) auto

lemma trim_loop_take:
  "trim_loop R C =
     (take (length R - length (longest_common_suffix R C)) R,
      take (length C - length (longest_common_suffix R C)) C)"
proof (induction R C rule: trim_loop.induct)
  case (1 R C)
  show ?case
  proof (cases "C \<noteq> [] \<and> R \<noteq> []")
    case False
    then show ?thesis by (auto simp: longest_common_suffix_def trim_loop_empty)
  next
    case True
    then obtain R0 a C0 b where R: "R = R0 @ [a]" and C: "C = C0 @ [b]"
      by (metis rev_exhaust)
    show ?thesis
    proof (cases "a = b")
      case False
      then show ?thesis using R C by (simp add: longest_common_suffix_def trim_loop_snoc)
    next
      case eq: True
      have "trim_loop R C = trim_loop R0 C0"
        using R C eq by (simp add: trim_loop_snoc)
      also have "\<dots> = (take (length R0 - length (longest_common_suffix R0 C0)) R0,
      take (length C0 - length (longest_common_suffix R0 C0)) C0)"
        using 1 True R C eq by simp
      finally show ?thesis using R C eq by (simp add: longest_common_suffix_def)
    qed
  qed
qed

lemma lcs_suffix1: "suffix (longest_common_suffix xs ys) xs"
  using longest_common_prefix_prefix1[of "rev xs" "rev ys"]
  by (simp add: longest_common_suffix_def suffix_to_prefix)

lemma lcs_suffix2: "suffix (longest_common_suffix xs ys) ys"
  using longest_common_prefix_prefix2[of "rev xs" "rev ys"]
  by (simp add: longest_common_suffix_def suffix_to_prefix)

lemma lcs_max: "suffix s xs \<Longrightarrow> suffix s ys \<Longrightarrow> suffix s (longest_common_suffix xs ys)"
  using longest_common_prefix_max_prefix[of "rev s" "rev xs" "rev ys"]
  by (simp add: longest_common_suffix_def suffix_to_prefix)

lemma trim_loop_kept:
  "R = fst (trim_loop R C) @ longest_common_suffix R C"
proof -
  obtain zs where zs: "R = zs @ longest_common_suffix R C"
    using lcs_suffix1[of R C] by (auto simp: suffix_def)
  have "length R = length zs + length (longest_common_suffix R C)"
    by (metis zs length_append)
  then have "take (length R - length (longest_common_suffix R C)) R = zs"
    by (metis zs append_eq_conv_conj add_diff_cancel_right')
  then show ?thesis
    using zs by (simp add: trim_loop_take)
qed

lemma trim_iterations_eq: "trim_iterations R C = length (longest_common_suffix R C)"
proof (induction R C rule: trim_iterations.induct)
  case (1 R C)
  show ?case
  proof (cases "C \<noteq> [] \<and> R \<noteq> []")
    case False
    then show ?thesis by (auto simp: longest_common_suffix_def trim_iterations_empty)
  next
    case True
    then obtain R0 a C0 b where R: "R = R0 @ [a]" and C: "C = C0 @ [b]"
      by (metis rev_exhaust)
    show ?thesis
    proof (cases "a = b")
      case False
      then show ?thesis using R C by (simp add: longest_common_suffix_def trim_iterations_snoc)
    next
      case eq: True
      then show ?thesis using 1 True R C by (simp add: longest_common_suffix_def trim_iterations_snoc)
    qed
  qed
qed


lemma analyze_windows_eq:
  "length (rtl base_skip_frames 64) \<le> 64 \<Longrightarrow>
   analyze_windows rtl this = this\<lparr>stack_addrs := rtl base_skip_frames 64\<rparr>"
  by (simp add: analyze_windows_def Let_def store_def resize_def)

lemma trim_to_current_stack_frame_eq:
  assumes "analyze p \<lparr>stack_addrs = []\<rparr> = Some (Inr current)"
  shows "trim_to_current_stack_frame p this =
     Some (Inr (this\<lparr>stack_addrs := fst (trim_loop (stack_addrs this) (stack_addrs current))\<rparr>))"
  using assms by (simp add: trim_to_current_stack_frame_def)

lemma trim_loop_disjoint:
  "set R \<inter> set C = {} \<Longrightarrow> trim_loop R C = (R, C)"
proof (cases "C \<noteq> [] \<and> R \<noteq> []")
  case False
  then show ?thesis by (auto simp: trim_loop_empty)
next
  case True
  assume disj: "set R \<inter> set C = {}"
  from True obtain R0 a C0 b where R: "R = R0 @ [a]" and C: "C = C0 @ [b]"
    by (metis rev_exhaust)
  with disj have "a \<noteq> b" by auto
  then show ?thesis using R C by (simp add: trim_loop_snoc)
qed

lemma trim_loop_append:
  "trim_loop (a @ s) (b @ s) = trim_loop a b"
proof (induction s rule: rev_induct)
  case Nil
  then show ?case by simp
next
  case (snoc x xs)
  have "trim_loop ((a @ xs) @ [x]) ((b @ xs) @ [x]) = trim_loop (a @ xs) (b @ xs)"
    by (simp only: trim_loop_snoc) simp
  then show ?case using snoc by simp
qed

lemma trim_loop_stop:
  "a = [] \<or> b = [] \<or> last a \<noteq> last b \<Longrightarrow> trim_loop a b = (a, b)"
  by (subst trim_loop.simps) auto

lemma int_of_size_t_small: "n < 2 ^ 31 \<Longrightarrow> int_of_size_t n = int n"
proof -
  assume "n < 2 ^ 31"
  then have a: "int n < 2 ^ 31" by (metis of_nat_less_iff of_nat_numeral of_nat_power)
  then have "int n mod 2 ^ 32 = int n" by simp
  with a show ?thesis by (simp add: int_of_size_t_def)
qed

lemma resize_store_written:
  "resize (length written) (store written buffer) = written"
  by (simp add: resize_def store_def)

lemma fill_buffer_grow:
  "length buffer \<le> length (backtrace (int_of_size_t (length buffer))) \<Longrightarrow>
   fill_buffer backtrace buffer =
     fill_buffer backtrace
       (resize (length buffer * 2) (store (backtrace (int_of_size_t (length buffer))) buffer))"
  by (subst fill_buffer.simps) (simp add: Let_def)

lemma fill_buffer_stop:
  "length (backtrace (int_of_size_t (length buffer))) < length buffer \<Longrightarrow>
   fill_buffer backtrace buffer = Some (backtrace (int_of_size_t (length buffer)))"
  by (subst fill_buffer.simps) (simp add: Let_def resize_store_written)

lemma fill_buffer_execinfo:
  "0 < length buffer \<Longrightarrow> length buffer < 2 ^ 31 \<Longrightarrow> length frames < 2 ^ 30 \<Longrightarrow>
   fill_buffer (execinfo_backtrace frames) buffer = Some frames"
proof (induction "Suc (length frames) - length buffer" arbitrary: buffer rule: less_induct)
  case less
  let ?n = "length buffer"
  have arg: "int_of_size_t ?n = int ?n"
    using less.prems(2) by (rule int_of_size_t_small)
  have written: "execinfo_backtrace frames (int_of_size_t ?n) = take ?n frames"
    by (simp add: arg execinfo_backtrace_def)
  show ?case
  proof (cases "length frames < ?n")
    case True
    then have "length (execinfo_backtrace frames (int_of_size_t ?n)) < ?n"
      by (simp add: written)
    then have "fill_buffer (execinfo_backtrace frames) buffer =
        Some (execinfo_backtrace frames (int_of_size_t ?n))"
      by (rule fill_buffer_stop)
    then show ?thesis using True by (simp add: written)
  next
    case False
    let ?b = "resize (?n * 2) (store (execinfo_backtrace frames (int_of_size_t ?n)) buffer)"
    from False have "?n \<le> length (execinfo_backtrace frames (int_of_size_t ?n))"
      by (simp add: written)
    then have step: "fill_buffer (execinfo_backtrace frames) buffer =
        fill_buffer (execinfo_backtrace frames) ?b"
      by (rule fill_buffer_grow)
    have len: "length ?b = ?n * 2" by (rule resize_length)
    have "Suc (length frames) - length ?b < Suc (length frames) - ?n"
      using False less.prems(1) unfolding len by arith
    moreover have "0 < length ?b" using less.prems(1) by (simp add: len)
    moreover have "length ?b < 2 ^ 31"
      using False less.prems(3) by (simp add: len)
    ultimately have "fill_buffer (execinfo_backtrace frames) ?b = Some frames"
      using less.prems(3) by (rule less.hyps)
    with step show ?thesis by simp
  qed
qed

lemma store_frames_eq:
  "store_frames idx buffer addrs = addrs @ drop (base_skip_frames - idx) buffer"
proof (induction buffer arbitrary: idx addrs)
  case Nil
  then show ?case by simp
next
  case (Cons e es)
  then show ?case by (cases idx) (simp_all add: base_skip_frames_def)
qed

lemma pop_entry_frames_eq:
  "pop_entry_frames skip_entry_frames addrs =
     (if addrs = [] then Inl PopBackOnEmpty else Inr (butlast addrs))"
  by (simp add: skip_entry_frames_def)

lemma analyze_execinfo_eq:
  assumes "length frames < 2 ^ 30"
  shows "analyze_execinfo (execinfo_backtrace frames) this =
     (if stack_addrs this @ drop base_skip_frames frames = [] then Some (Inl PopBackOnEmpty)
      else Some (Inr (this\<lparr>stack_addrs := butlast (stack_addrs this @ drop base_skip_frames frames)\<rparr>)))"
proof -
  have "fill_buffer (execinfo_backtrace frames) (replicate 64 null) = Some frames"
    using assms by (simp add: fill_buffer_execinfo)
  then show ?thesis
    by (simp add: analyze_execinfo_def store_frames_eq pop_entry_frames_eq)
qed

lemma syminfo_step_eq:
  "syminfo_event_step u e (data, log) =
     (data\<lparr>symbols := symbols data @ syminfo_records u e\<rparr>, log @ syminfo_log e)"
  by (cases e) (simp_all add: backtrace_syminfo_callback_def backtrace_error_callback_def)

lemma syminfo_fold_eq:
  "fold (syminfo_event_step u) es (data, log) =
     (data\<lparr>symbols := symbols data @ concat (map (syminfo_records u) es)\<rparr>,
      log @ concat (map syminfo_log es))"
  by (induction es arbitrary: data log) (simp_all add: syminfo_step_eq)

lemma pcinfo_step_eq:
  "pcinfo_event_step lib u e (data, log) =
     (data\<lparr>symbols := symbols data @ pcinfo_records lib u (query_pc data) e\<rparr>,
      log @ pcinfo_log lib (query_pc data) e)"
proof (cases e)
  case (PcinfoCallback p fname line func)
  then show ?thesis
    by (cases func) (simp_all add: backtrace_pcinfo_callback_def)
next
  case (PcinfoError msg errorno)
  then show ?thesis
    by (simp add: backtrace_pcinfo_error_callback_def syminfo_fold_eq backtrace_error_callback_def)
qed

lemma pcinfo_fold_eq:
  "fold (pcinfo_event_step lib u) es (data, log) =
     (data\<lparr>symbols := symbols data @ concat (map (pcinfo_records lib u (query_pc data)) es)\<rparr>,
      log @ concat (map (pcinfo_log lib (query_pc data)) es))"
  by (induction es arbitrary: data log) (simp_all add: pcinfo_step_eq)

lemma resolve_pc_eq:
  "resolve_pc lib u p (data, log) =
     (data\<lparr>symbols := symbols data @ concat (map (pcinfo_records lib u p) (backtrace_pcinfo lib p)),
            query_pc := p\<rparr>,
      log @ concat (map (pcinfo_log lib p) (backtrace_pcinfo lib p)))"
  by (simp add: resolve_pc_def pcinfo_fold_eq)

lemma records_for_eq:
  "records_for lib u p = concat (map (pcinfo_records lib u p) (backtrace_pcinfo lib p))"
  by (simp add: records_for_def resolve_pc_eq)

lemma log_for_eq:
  "log_for lib u p = concat (map (pcinfo_log lib p) (backtrace_pcinfo lib p))"
  by (simp add: log_for_def resolve_pc_eq)

lemma resolve_pc_append:
  "symbols (fst (resolve_pc lib u p st)) = symbols (fst st) @ records_for lib u p \<and>
   snd (resolve_pc lib u p st) = snd st @ log_for lib u p"
  by (cases st) (simp add: resolve_pc_eq records_for_eq log_for_eq)

lemma fold_resolve_pc:
  "symbols (fst (fold (resolve_pc lib u) ps st)) =
     symbols (fst st) @ concat (map (records_for lib u) ps) \<and>
   snd (fold (resolve_pc lib u) ps st) = snd st @ concat (map (log_for lib u) ps)"
  by (induction ps arbitrary: st) (simp_all add: resolve_pc_append)

lemma get_symbols_libbacktrace_concat:
  "get_symbols_libbacktrace lib u this False =
     (concat (map (records_for lib u) (stack_addrs this)),
      concat (map (log_for lib u) (stack_addrs this)))"
  by (simp add: get_symbols_libbacktrace_def Let_def fold_resolve_pc)

lemma syminfo_records_nonempty:
  "concat (map (syminfo_records u) es) \<noteq> [] \<longleftrightarrow> list_ex is_syminfo_callback es"
proof (induction es)
  case Nil
  then show ?case by simp
next
  case (Cons e es)
  then show ?case by (cases e) simp_all
qed

lemma pcinfo_records_nonempty:
  "concat (map (pcinfo_records lib u q) es) \<noteq> [] \<longleftrightarrow>
     list_ex is_pcinfo_callback es \<or>
     (list_ex is_not_found es \<and> list_ex is_syminfo_callback (backtrace_syminfo lib q))"
proof (induction es)
  case Nil
  then show ?case by simp
next
  case (Cons e es)
  show ?case
  proof (cases e)
    case (PcinfoCallback p fname line func)
    then show ?thesis by (cases func) simp_all
  next
    case (PcinfoError msg errorno)
    then show ?thesis using Cons syminfo_records_nonempty[of u "backtrace_syminfo lib q"]
      by auto
  qed
qed

lemma records_for_nonempty: "records_for lib u p \<noteq> [] \<longleftrightarrow> answered lib p"
  by (simp only: records_for_eq pcinfo_records_nonempty answered_def)

lemma get_symbols_libbacktrace_records:
  "fst (get_symbols_libbacktrace lib u this reversed) =
     (if reversed then rev (concat (map (records_for lib u) (stack_addrs this)))
      else concat (map (records_for lib u) (stack_addrs this)))"
  by (simp add: get_symbols_libbacktrace_def Let_def fold_resolve_pc emit_reversed_rev)

lemma length_concat_answered:
  "length (filter (answered lib) ps) \<le> length (concat (map (records_for lib u) ps))"
proof (induction ps)
  case Nil
  then show ?case by simp
next
  case (Cons p ps)
  show ?case
  proof (cases "answered lib p")
    case True
    then have "records_for lib u p \<noteq> []" by (simp add: records_for_nonempty)
    then have "1 \<le> length (records_for lib u p)" by (cases "records_for lib u p") simp_all
    with Cons True show ?thesis by simp
  next
    case False
    with Cons show ?thesis by simp
  qed
qed

lemma concat_singletons:
  "\<forall>p \<in> set ps. length (f p) = 1 \<Longrightarrow> concat (map f ps) = map (\<lambda>p. hd (f p)) ps"
proof (induction ps)
  case Nil
  then show ?case by simp
next
  case (Cons p ps)
  then have "length (f p) = 1" by simp
  then have "f p = [hd (f p)]" by (cases "f p") simp_all
  with Cons show ?case by simp
qed

lemma fill_buffer_doubles:
  "(\<forall>j < k. length buffer * 2 ^ j \<le> length (backtrace (int_of_size_t (length buffer * 2 ^ j)))) \<Longrightarrow>
   length (backtrace (int_of_size_t (length buffer * 2 ^ k))) < length buffer * 2 ^ k \<Longrightarrow>
   fill_buffer backtrace buffer = Some (backtrace (int_of_size_t (length buffer * 2 ^ k)))"
proof (induction k arbitrary: buffer)
  case 0
  then show ?case using fill_buffer_stop[of backtrace buffer] by simp
next
  case (Suc k)
  let ?b = "resize (length buffer * 2) (store (backtrace (int_of_size_t (length buffer))) buffer)"
  have len: "length ?b = length buffer * 2" by (rule resize_length)
  from Suc.prems(1) have "length buffer * 2 ^ 0 \<le> length (backtrace (int_of_size_t (length buffer * 2 ^ 0)))"
    by blast
  then have "length buffer \<le> length (backtrace (int_of_size_t (length buffer)))" by simp
  then have step: "fill_buffer backtrace buffer = fill_buffer backtrace ?b"
    by (rule fill_buffer_grow)
  have a: "\<forall>j < k. length ?b * 2 ^ j \<le> length (backtrace (int_of_size_t (length ?b * 2 ^ j)))"
  proof (intro allI impI)
    fix j assume "j < k"
    then have "Suc j < Suc k" by simp
    with Suc.prems(1) have "length buffer * 2 ^ Suc j \<le>
        length (backtrace (int_of_size_t (length buffer * 2 ^ Suc j)))" by blast
    then show "length ?b * 2 ^ j \<le> length (backtrace (int_of_size_t (length ?b * 2 ^ j)))"
      by (simp add: len mult.assoc)
  qed
  have b: "length (backtrace (int_of_size_t (length ?b * 2 ^ k))) < length ?b * 2 ^ k"
    using Suc.prems(2) by (simp add: len mult.assoc)
  from Suc.IH[OF a b] step show ?case by (simp add: len mult.assoc)
qed

lemma analyze_execinfo_general:
  "analyze_execinfo backtrace this =
     (case fill_buffer backtrace (replicate 64 null) of
        None \<Rightarrow> None
      | Some buffer \<Rightarrow>
          (if length (stack_addrs this @ drop base_skip_frames buffer) < skip_entry_frames
           then Some (Inl PopBackOnEmpty)
           else Some (Inr (this\<lparr>stack_addrs :=
             take (length (stack_addrs this @ drop base_skip_frames buffer) - skip_entry_frames)
               (stack_addrs this @ drop base_skip_frames buffer)\<rparr>))))"
  by (simp add: analyze_execinfo_def store_frames_eq pop_entry_frames_eq skip_entry_frames_def
      butlast_conv_take split: option.split)

section \<open>Capture\<close>

text \<open>
  Claim C8 fails on the captures on which claim C2 fails. For every unwind primitive, once
  the \<^verbatim>\<open>while\<close> loop has left with its buffer (the lemma \<open>fill_buffer_doubles\<close>: after
  \<open>k\<close> doublings, when the count first stays below the capacity), the \<^verbatim>\<open>execinfo\<close>
  \<^verbatim>\<open>analyze\<close> appends the addresses of the buffer after the first \<open>base_skip_frames\<close> and
  removes the last \<open>skip_entry_frames\<close> stored addresses, except when fewer than
  \<open>skip_entry_frames\<close> addresses are stored: then \<^verbatim>\<open>pop_back\<close> runs on the empty vector.
  With a capture of one frame on a fresh instance the loop leaves with the count 1, the
  frame is skipped at the front, nothing is stored, and the removal at the back is
  undefined behaviour instead of leaving the sequence empty.
\<close>

theorem analyze_execinfo_cut_pops_empty_vector:
  "analyze_execinfo backtrace this =
     (case fill_buffer backtrace (replicate 64 null) of
        None \<Rightarrow> None
      | Some buffer \<Rightarrow>
          (if length (stack_addrs this @ drop base_skip_frames buffer) < skip_entry_frames
           then Some (Inl PopBackOnEmpty)
           else Some (Inr (this\<lparr>stack_addrs :=
             take (length (stack_addrs this @ drop base_skip_frames buffer) - skip_entry_frames)
               (stack_addrs this @ drop base_skip_frames buffer)\<rparr>)))) \<and>
   fill_buffer (execinfo_backtrace [5]) (replicate 64 null) = Some [5] \<and>
   store_frames 0 [5] [] = [] \<and>
   pop_entry_frames skip_entry_frames [] = Inl PopBackOnEmpty \<and>
   analyze_execinfo (execinfo_backtrace [5]) \<lparr>stack_addrs = []\<rparr> = Some (Inl PopBackOnEmpty)"
proof -
  have f: "fill_buffer (execinfo_backtrace [5]) (replicate 64 null) = Some [5]"
    by (simp add: fill_buffer_execinfo)
  have s: "store_frames 0 [5] [] = []"
    by (simp add: base_skip_frames_def)
  have p: "pop_entry_frames skip_entry_frames [] = Inl PopBackOnEmpty"
    by (simp add: skip_entry_frames_def)
  have a: "analyze_execinfo (execinfo_backtrace [5]) \<lparr>stack_addrs = []\<rparr> = Some (Inl PopBackOnEmpty)"
    by (simp add: analyze_execinfo_eq base_skip_frames_def)
  from analyze_execinfo_general[of backtrace this] f s p a show ?thesis by simp
qed


text \<open>
  Claim C2 fails in the \<^verbatim>\<open>execinfo\<close> variant. On a fresh instance, when the primitive
  returns no frame or one frame, nothing is stored and \<^verbatim>\<open>pop_back\<close> runs on the empty
  vector, which is undefined behaviour. The Windows and libbacktrace variants return with
  the empty sequence on such a capture.
\<close>

theorem analyze_execinfo_pops_empty_vector:
  "analyze_execinfo (execinfo_backtrace []) \<lparr>stack_addrs = []\<rparr> = Some (Inl PopBackOnEmpty) \<and>
   analyze_execinfo (execinfo_backtrace [1]) \<lparr>stack_addrs = []\<rparr> = Some (Inl PopBackOnEmpty) \<and>
   analyze (EXECINFO (execinfo_backtrace [])) \<lparr>stack_addrs = []\<rparr> = Some (Inl PopBackOnEmpty) \<and>
   analyze (WIN32 (\<lambda>skip n. [])) \<lparr>stack_addrs = []\<rparr> = Some (Inr \<lparr>stack_addrs = []\<rparr>) \<and>
   analyze (WITH_BACKTRACE \<lparr>backtrace_simple = (\<lambda>skip. []), backtrace_pcinfo = (\<lambda>p. []),
       backtrace_syminfo = (\<lambda>p. [])\<rparr>) \<lparr>stack_addrs = []\<rparr> = Some (Inr \<lparr>stack_addrs = []\<rparr>)"
  by (simp add: analyze_execinfo_eq analyze_def analyze_windows_eq analyze_libbacktrace_def
      base_skip_frames_def)

text \<open>
  Claim C7 fails in the libbacktrace and \<^verbatim>\<open>execinfo\<close> variants: \<^verbatim>\<open>analyze\<close> appends to
  the sequence the instance already holds (and \<^verbatim>\<open>pop_back\<close> may even remove one of the
  prior entries), whereas the Windows variant assigns the captured buffer and so overwrites.
\<close>

theorem analyze_keeps_prior_content:
  "fst (analyze_libbacktrace
     \<lparr>backtrace_simple = (\<lambda>skip. [SimpleCallback 1, SimpleCallback 2]),
      backtrace_pcinfo = (\<lambda>p. []), backtrace_syminfo = (\<lambda>p. [])\<rparr>
     \<lparr>stack_addrs = [9]\<rparr>) = \<lparr>stack_addrs = [9, 1, 2]\<rparr> \<and>
   analyze_execinfo (execinfo_backtrace [0, 1, 2, 3]) \<lparr>stack_addrs = [9]\<rparr> =
     Some (Inr \<lparr>stack_addrs = [9, 1, 2]\<rparr>) \<and>
   analyze_execinfo (execinfo_backtrace [0]) \<lparr>stack_addrs = [9]\<rparr> =
     Some (Inr \<lparr>stack_addrs = []\<rparr>) \<and>
   analyze_windows (\<lambda>skip n. [1, 2]) \<lparr>stack_addrs = [9]\<rparr> = \<lparr>stack_addrs = [1, 2]\<rparr>"
  by (simp add: analyze_execinfo_eq analyze_windows_eq analyze_libbacktrace_def
      backtrace_simple_callback_def base_skip_frames_def)

section \<open>Trimming\<close>

text \<open>
  Claim C4. For every receiver and every freshly captured comparison stack,
  \<^verbatim>\<open>trim_to_current_stack_frame\<close> returns, and the receiver keeps exactly what is in front
  of its longest common suffix with the comparison stack: the removed part \<open>common\<close> is
  a suffix of both stacks and every common suffix is a suffix of it, so the loop stopped at
  the first mismatch or at the exhaustion of a sequence. Only the receiver's sequence is
  changed. When the receiver is a suffix of the comparison stack it ends up empty.
\<close>

theorem trim_removes_longest_common_suffix:
  assumes "analyze p \<lparr>stack_addrs = []\<rparr> = Some (Inr current)"
  shows "\<exists>kept common.
     trim_to_current_stack_frame p this = Some (Inr (this\<lparr>stack_addrs := kept\<rparr>)) \<and>
     common = longest_common_suffix (stack_addrs this) (stack_addrs current) \<and>
     stack_addrs this = kept @ common \<and>
     suffix common (stack_addrs current) \<and>
     (\<forall>s. suffix s (stack_addrs this) \<and> suffix s (stack_addrs current) \<longrightarrow> suffix s common) \<and>
     (suffix (stack_addrs this) (stack_addrs current) \<longrightarrow> kept = [])"
proof -
  let ?R = "stack_addrs this" and ?C = "stack_addrs current"
  let ?kept = "fst (trim_loop ?R ?C)" and ?common = "longest_common_suffix ?R ?C"
  have run: "trim_to_current_stack_frame p this = Some (Inr (this\<lparr>stack_addrs := ?kept\<rparr>))"
    using assms by (rule trim_to_current_stack_frame_eq)
  have split: "?R = ?kept @ ?common"
    by (rule trim_loop_kept)
  have longest: "\<forall>s. suffix s ?R \<and> suffix s ?C \<longrightarrow> suffix s ?common"
    by (simp add: lcs_max)
  have whole: "suffix ?R ?C \<longrightarrow> ?kept = []"
  proof
    assume "suffix ?R ?C"
    then have "suffix ?R ?common" by (simp add: lcs_max)
    then have "length ?R \<le> length ?common" by (rule suffix_length_le)
    moreover have "length ?R = length ?kept + length ?common"
      by (metis split length_append)
    ultimately show "?kept = []" by simp
  qed
  from run split longest whole lcs_suffix2[of ?R ?C] show ?thesis by blast
qed

theorem trim_removes_longest_common_suffix_witness:
  "trim_to_current_stack_frame (WIN32 (\<lambda>skip n. [1, 2, 3])) \<lparr>stack_addrs = [7, 2, 3]\<rparr> =
     Some (Inr \<lparr>stack_addrs = [7]\<rparr>) \<and>
   trim_to_current_stack_frame (WIN32 (\<lambda>skip n. [1, 2, 3])) \<lparr>stack_addrs = [2, 3]\<rparr> =
     Some (Inr \<lparr>stack_addrs = []\<rparr>)"
proof -
  let ?p = "WIN32 (\<lambda>skip n. [1, 2, 3])"
  have capture: "analyze ?p \<lparr>stack_addrs = []\<rparr> = Some (Inr \<lparr>stack_addrs = [1, 2, 3]\<rparr>)"
    by (simp add: analyze_def analyze_windows_eq)
  from trim_removes_longest_common_suffix [OF capture, of "\<lparr>stack_addrs = [7, 2, 3]\<rparr>"]
  obtain kept where
    run: "trim_to_current_stack_frame ?p \<lparr>stack_addrs = [7, 2, 3]\<rparr> =
            Some (Inr (\<lparr>stack_addrs = [7, 2, 3]\<rparr>\<lparr>stack_addrs := kept\<rparr>))" and
    split: "[7, 2, 3] = kept @ longest_common_suffix [7, 2, 3] [1, 2, 3 :: addr]"
    by auto
  have "longest_common_suffix [7, 2, 3] [1, 2, 3 :: addr] = [2, 3]"
    by (simp add: longest_common_suffix_def)
  with split have "kept = [7]" by simp
  with run have first: "trim_to_current_stack_frame ?p \<lparr>stack_addrs = [7, 2, 3]\<rparr> =
     Some (Inr \<lparr>stack_addrs = [7]\<rparr>)"
    by simp
  have sfx: "suffix [2, 3] [1, 2, 3 :: addr]"
    by (simp add: suffix_def)
  from trim_removes_longest_common_suffix [OF capture, of "\<lparr>stack_addrs = [2, 3]\<rparr>"] sfx
  have "trim_to_current_stack_frame ?p \<lparr>stack_addrs = [2, 3]\<rparr> =
     Some (Inr \<lparr>stack_addrs = []\<rparr>)"
    by auto
  with first show ?thesis by simp
qed

text \<open>
  Claim C5, as amended. When the receiver and the fresh capture have no address in common,
  trimming leaves the receiver as it is. When both end with the same three addresses and
  the sequences in front of them do not end alike (one of them is empty, or their last
  addresses differ), trimming removes exactly those three entries.
\<close>

theorem trim_disjoint_or_three_common:
  assumes "analyze p \<lparr>stack_addrs = []\<rparr> = Some (Inr current)"
  shows "(set (stack_addrs this) \<inter> set (stack_addrs current) = {} \<longrightarrow>
            trim_to_current_stack_frame p this = Some (Inr this)) \<and>
         (stack_addrs this = a @ [x, y, z] \<and> stack_addrs current = b @ [x, y, z] \<and>
          (a = [] \<or> b = [] \<or> last a \<noteq> last b) \<longrightarrow>
            trim_to_current_stack_frame p this = Some (Inr (this\<lparr>stack_addrs := a\<rparr>)))"
proof (intro conjI impI)
  assume "set (stack_addrs this) \<inter> set (stack_addrs current) = {}"
  then have "fst (trim_loop (stack_addrs this) (stack_addrs current)) = stack_addrs this"
    by (simp add: trim_loop_disjoint)
  then show "trim_to_current_stack_frame p this = Some (Inr this)"
    using assms by (simp add: trim_to_current_stack_frame_eq)
next
  assume h: "stack_addrs this = a @ [x, y, z] \<and> stack_addrs current = b @ [x, y, z] \<and>
          (a = [] \<or> b = [] \<or> last a \<noteq> last b)"
  then have "trim_loop (stack_addrs this) (stack_addrs current) = trim_loop a b"
    by (simp only: trim_loop_append)
  also have "\<dots> = (a, b)" using h by (simp only: trim_loop_stop)
  finally show "trim_to_current_stack_frame p this = Some (Inr (this\<lparr>stack_addrs := a\<rparr>))"
    using assms by (simp add: trim_to_current_stack_frame_eq)
qed

theorem trim_disjoint_or_three_common_witness:
  "trim_to_current_stack_frame (WIN32 (\<lambda>skip n. [5, 6, 2, 3, 4])) \<lparr>stack_addrs = [1, 2, 3, 4]\<rparr> =
     Some (Inr \<lparr>stack_addrs = [1]\<rparr>) \<and>
   trim_to_current_stack_frame (WIN32 (\<lambda>skip n. [5, 6, 2, 3, 4])) \<lparr>stack_addrs = [7, 8, 9]\<rparr> =
     Some (Inr \<lparr>stack_addrs = [7, 8, 9]\<rparr>)"
proof -
  let ?p = "WIN32 (\<lambda>skip n. [5, 6, 2, 3, 4])"
  have capture: "analyze ?p \<lparr>stack_addrs = []\<rparr> = Some (Inr \<lparr>stack_addrs = [5, 6, 2, 3, 4]\<rparr>)"
    by (simp add: analyze_def analyze_windows_eq)
  have "trim_to_current_stack_frame ?p \<lparr>stack_addrs = [1, 2, 3, 4]\<rparr> =
     Some (Inr \<lparr>stack_addrs = [1]\<rparr>)"
    using trim_disjoint_or_three_common [OF capture, of "\<lparr>stack_addrs = [1, 2, 3, 4]\<rparr>" "[1]" 2 3 4 "[5, 6]"]
    by simp
  moreover have "trim_to_current_stack_frame ?p \<lparr>stack_addrs = [7, 8, 9]\<rparr> =
     Some (Inr \<lparr>stack_addrs = [7, 8, 9]\<rparr>)"
    using trim_disjoint_or_three_common [OF capture, of "\<lparr>stack_addrs = [7, 8, 9]\<rparr>" "[]" 0 0 0 "[]"]
    by simp
  ultimately show ?thesis by simp
qed

text \<open>
  Claim C5 as stated fails when more than the back three addresses agree: the back three
  addresses of \<open>[1, 2, 3, 4]\<close> are those of the capture \<open>[1, 2, 3, 4]\<close>, and trimming
  removes four entries, not three.
\<close>

theorem trim_three_common_counterexample:
  "drop 1 [1, 2, 3, 4 :: addr] = [2, 3, 4] \<and>
   analyze (WIN32 (\<lambda>skip n. [1, 2, 3, 4])) \<lparr>stack_addrs = []\<rparr> =
     Some (Inr \<lparr>stack_addrs = [1, 2, 3, 4]\<rparr>) \<and>
   trim_to_current_stack_frame (WIN32 (\<lambda>skip n. [1, 2, 3, 4])) \<lparr>stack_addrs = [1, 2, 3, 4]\<rparr> =
     Some (Inr \<lparr>stack_addrs = []\<rparr>)"
  by (simp add: trim_to_current_stack_frame_def analyze_def analyze_windows_eq trim_loop_take
      longest_common_suffix_def)

text \<open>
  Claim C10. Once the fresh capture has returned, \<^verbatim>\<open>trim_to_current_stack_frame\<close> returns:
  its loop is a total function. Every run of the loop body pops one address from each
  sequence, so the lengths of both go down by the number of iterations, which is at most the
  minimum of the two lengths.
\<close>

theorem trim_terminates_within_min:
  assumes "analyze p \<lparr>stack_addrs = []\<rparr> = Some (Inr current)"
  shows "\<exists>kept rest.
     trim_loop (stack_addrs this) (stack_addrs current) = (kept, rest) \<and>
     trim_to_current_stack_frame p this = Some (Inr (this\<lparr>stack_addrs := kept\<rparr>)) \<and>
     length kept + trim_iterations (stack_addrs this) (stack_addrs current) = length (stack_addrs this) \<and>
     length rest + trim_iterations (stack_addrs this) (stack_addrs current) = length (stack_addrs current) \<and>
     trim_iterations (stack_addrs this) (stack_addrs current)
       \<le> min (length (stack_addrs this)) (length (stack_addrs current))"
proof -
  let ?R = "stack_addrs this" and ?C = "stack_addrs current"
  let ?n = "length (longest_common_suffix ?R ?C)"
  have n1: "?n \<le> length ?R" using lcs_suffix1[of ?R ?C] by (rule suffix_length_le)
  have n2: "?n \<le> length ?C" using lcs_suffix2[of ?R ?C] by (rule suffix_length_le)
  have "trim_loop ?R ?C = (take (length ?R - ?n) ?R, take (length ?C - ?n) ?C)"
    by (rule trim_loop_take)
  moreover have "trim_to_current_stack_frame p this =
      Some (Inr (this\<lparr>stack_addrs := take (length ?R - ?n) ?R\<rparr>))"
    using assms by (simp add: trim_to_current_stack_frame_eq trim_loop_take)
  moreover have "length (take (length ?R - ?n) ?R) + trim_iterations ?R ?C = length ?R"
    using n1 by (simp add: trim_iterations_eq)
  moreover have "length (take (length ?C - ?n) ?C) + trim_iterations ?R ?C = length ?C"
    using n2 by (simp add: trim_iterations_eq)
  moreover have "trim_iterations ?R ?C \<le> min (length ?R) (length ?C)"
    using n1 n2 by (simp add: trim_iterations_eq)
  ultimately show ?thesis by blast
qed

theorem trim_terminates_within_min_witness:
  "trim_iterations [7, 2, 3] [9, 8, 1, 2, 3 :: addr] = 2 \<and>
   trim_to_current_stack_frame (WIN32 (\<lambda>skip n. [9, 8, 1, 2, 3])) \<lparr>stack_addrs = [7, 2, 3]\<rparr> =
     Some (Inr \<lparr>stack_addrs = [7]\<rparr>)"
proof -
  let ?p = "WIN32 (\<lambda>skip n. [9, 8, 1, 2, 3])"
  have capture: "analyze ?p \<lparr>stack_addrs = []\<rparr> = Some (Inr \<lparr>stack_addrs = [9, 8, 1, 2, 3]\<rparr>)"
    by (simp add: analyze_def analyze_windows_eq)
  have loop: "trim_loop [7, 2, 3] [9, 8, 1, 2, 3 :: addr] = ([7], [9, 8, 1])"
    by (simp add: trim_loop_take longest_common_suffix_def)
  have iters: "trim_iterations [7, 2, 3] [9, 8, 1, 2, 3 :: addr] = 2"
    by (simp add: trim_iterations_eq longest_common_suffix_def)
  from trim_terminates_within_min [OF capture, of "\<lparr>stack_addrs = [7, 2, 3]\<rparr>"] loop iters
  show ?thesis by simp
qed

section \<open>Resolution\<close>

text \<open>
  Claim C1, as amended. \<^verbatim>\<open>get_symbols\<close> hands the callback the records of each captured
  address in turn (back to front when reversed), and the records of an address depend on
  that address alone, so no failure at one address aborts or changes the resolution of the
  others. An address has at least one record exactly when the library answers its query;
  hence there are at least as many records as answered addresses. An address without debug
  info whose symbol-table query answers gets a record with empty file name, line 0 and a
  possibly empty function name. An address whose query fails with another error gets no
  record, only a log entry. Without libbacktrace there is exactly one record per address.
\<close>

theorem get_symbols_record_per_answered_address:
  "fst (get_symbols_libbacktrace lib u this reversed) =
     (if reversed then rev (concat (map (records_for lib u) (stack_addrs this)))
      else concat (map (records_for lib u) (stack_addrs this))) \<and>
   (records_for lib u p \<noteq> [] \<longleftrightarrow> answered lib p) \<and>
   length (filter (answered lib) (stack_addrs this))
     \<le> length (fst (get_symbols_libbacktrace lib u this reversed)) \<and>
   (backtrace_pcinfo lib p = [PcinfoError msg (- 1)] \<and>
    backtrace_syminfo lib p = [SyminfoCallback q symname] \<longrightarrow>
      records_for lib u p =
        [\<lparr>filename = '''', lineno = 0,
          functionname = (case symname of None \<Rightarrow> '''' | Some s \<Rightarrow> demangle u s), pc = q\<rparr>]) \<and>
   (backtrace_pcinfo lib p = [PcinfoError msg errorno] \<and> errorno \<noteq> - 1 \<longrightarrow>
      records_for lib u p = [] \<and> log_for lib u p = [(msg, errorno)]) \<and>
   length (get_symbols_fallback u this reversed) = length (stack_addrs this)"
proof (intro conjI impI)
  show "fst (get_symbols_libbacktrace lib u this reversed) =
     (if reversed then rev (concat (map (records_for lib u) (stack_addrs this)))
      else concat (map (records_for lib u) (stack_addrs this)))"
    by (rule get_symbols_libbacktrace_records)
next
  show "records_for lib u p \<noteq> [] \<longleftrightarrow> answered lib p"
    by (rule records_for_nonempty)
next
  show "length (filter (answered lib) (stack_addrs this))
     \<le> length (fst (get_symbols_libbacktrace lib u this reversed))"
    using length_concat_answered[of lib "stack_addrs this" u]
    by (simp add: get_symbols_libbacktrace_records)
next
  assume "backtrace_pcinfo lib p = [PcinfoError msg (- 1)] \<and>
    backtrace_syminfo lib p = [SyminfoCallback q symname]"
  then show "records_for lib u p =
        [\<lparr>filename = '''', lineno = 0,
          functionname = (case symname of None \<Rightarrow> '''' | Some s \<Rightarrow> demangle u s), pc = q\<rparr>]"
    by (simp add: records_for_eq)
next
  assume h: "backtrace_pcinfo lib p = [PcinfoError msg errorno] \<and> errorno \<noteq> - 1"
  then show "records_for lib u p = []" by (simp add: records_for_eq)
  from h show "log_for lib u p = [(msg, errorno)]" by (simp add: log_for_eq)
next
  show "length (get_symbols_fallback u this reversed) = length (stack_addrs this)"
    by (simp add: get_symbols_fallback_eq)
qed

theorem get_symbols_record_per_answered_address_witness:
  "get_symbols_libbacktrace
     \<lparr>backtrace_simple = (\<lambda>skip. []),
      backtrace_pcinfo = (\<lambda>p. if p = 2 then [PcinfoError ''read error'' 5]
                               else [PcinfoError ''no debug info'' (- 1)]),
      backtrace_syminfo = (\<lambda>p. [SyminfoCallback p None])\<rparr>
     \<lparr>demangle = (\<lambda>s. s), symbol_name = (\<lambda>p only_name no_pc. ''main'')\<rparr>
     \<lparr>stack_addrs = [1, 2, 3]\<rparr> False =
   ([\<lparr>filename = '''', lineno = 0, functionname = '''', pc = 1\<rparr>,
     \<lparr>filename = '''', lineno = 0, functionname = '''', pc = 3\<rparr>],
    [(''read error'', 5)])"
proof -
  let ?lib = "\<lparr>backtrace_simple = (\<lambda>skip. []),
      backtrace_pcinfo = (\<lambda>p. if p = (2::addr) then [PcinfoError ''read error'' 5]
                               else [PcinfoError ''no debug info'' (- 1)]),
      backtrace_syminfo = (\<lambda>p. [SyminfoCallback p None])\<rparr>"
  let ?u = "\<lparr>demangle = (\<lambda>s. s), symbol_name = (\<lambda>p only_name no_pc. ''main'')\<rparr>"
  let ?sa = "\<lparr>stack_addrs = [1, 2, 3]\<rparr>"
  note t = get_symbols_record_per_answered_address [of ?lib ?u ?sa False]
  have r1: "records_for ?lib ?u 1 = [\<lparr>filename = '''', lineno = 0, functionname = '''', pc = 1\<rparr>]"
    using t [of 1 "''no debug info''" 1 None] by simp
  have r3: "records_for ?lib ?u 3 = [\<lparr>filename = '''', lineno = 0, functionname = '''', pc = 3\<rparr>]"
    using t [of 3 "''no debug info''" 3 None] by simp
  have r2: "records_for ?lib ?u 2 = []"
    using t [of 2 "''read error''" 2 None 5] by simp
  have "fst (get_symbols_libbacktrace ?lib ?u ?sa False) =
      concat (map (records_for ?lib ?u) [1, 2, 3])"
    using t [of 1 "''no debug info''" 1 None 0] by simp
  then have "fst (get_symbols_libbacktrace ?lib ?u ?sa False) =
     [\<lparr>filename = '''', lineno = 0, functionname = '''', pc = 1\<rparr>,
      \<lparr>filename = '''', lineno = 0, functionname = '''', pc = 3\<rparr>]"
    by (simp add: r1 r2 r3)
  moreover have "snd (get_symbols_libbacktrace ?lib ?u ?sa False) = [(''read error'', 5)]"
    by (simp add: get_symbols_libbacktrace_concat log_for_eq)
  ultimately show ?thesis by (simp add: prod_eq_iff)
qed

text \<open>
  Claim C1 as stated fails: an address whose debug-info query ends in a library error, or
  whose symbol-table query fails after the not-found condition, gets no record at all.
\<close>

theorem get_symbols_drops_failed_address_counterexample:
  "get_symbols_libbacktrace
     \<lparr>backtrace_simple = (\<lambda>skip. []),
      backtrace_pcinfo = (\<lambda>p. [PcinfoError ''read error'' 5]),
      backtrace_syminfo = (\<lambda>p. [SyminfoCallback p None])\<rparr>
     \<lparr>demangle = (\<lambda>s. s), symbol_name = (\<lambda>p only_name no_pc. ''main'')\<rparr>
     \<lparr>stack_addrs = [1]\<rparr> False = ([], [(''read error'', 5)]) \<and>
   get_symbols_libbacktrace
     \<lparr>backtrace_simple = (\<lambda>skip. []),
      backtrace_pcinfo = (\<lambda>p. [PcinfoError ''no debug info'' (- 1)]),
      backtrace_syminfo = (\<lambda>p. [SyminfoError ''no symbol table'' (- 1)])\<rparr>
     \<lparr>demangle = (\<lambda>s. s), symbol_name = (\<lambda>p only_name no_pc. ''main'')\<rparr>
     \<lparr>stack_addrs = [1]\<rparr> False = ([], [(''no symbol table'', - 1)])"
  by (simp add: get_symbols_libbacktrace_concat records_for_eq log_for_eq)

text \<open>
  Claim C3, as amended. Per address the libbacktrace variant asks for debug info first. A
  debug-info answer with a function name gives file, line and the demangled name; a
  debug-info answer without a function name is named by \<^verbatim>\<open>util::symbol_name\<close>. When debug
  info is absent (error number \<open>-1\<close>) the symbol table is asked: a symbol name gives a
  record with that name demangled, no file and line 0, and a missing symbol name gives the
  empty function name; \<^verbatim>\<open>util::symbol_name\<close> is not consulted on that path.
\<close>

theorem resolution_cascade:
  "(backtrace_pcinfo lib p = [PcinfoCallback q fname line (Some f)] \<longrightarrow>
      records_for lib u p =
        [\<lparr>filename = (case fname of None \<Rightarrow> '''' | Some n \<Rightarrow> n), lineno = word_of_int line,
          functionname = demangle u f, pc = q\<rparr>]) \<and>
   (backtrace_pcinfo lib p = [PcinfoCallback q fname line None] \<longrightarrow>
      records_for lib u p =
        [\<lparr>filename = '''', lineno = 0, functionname = symbol_name u q False True, pc = q\<rparr>]) \<and>
   (backtrace_pcinfo lib p = [PcinfoError msg (- 1)] \<and>
    backtrace_syminfo lib p = [SyminfoCallback q (Some s)] \<longrightarrow>
      records_for lib u p =
        [\<lparr>filename = '''', lineno = 0, functionname = demangle u s, pc = q\<rparr>]) \<and>
   (backtrace_pcinfo lib p = [PcinfoError msg (- 1)] \<and>
    backtrace_syminfo lib p = [SyminfoCallback q None] \<longrightarrow>
      records_for lib u p =
        [\<lparr>filename = '''', lineno = 0, functionname = '''', pc = q\<rparr>]) \<and>
   fst (get_symbols_libbacktrace lib u \<lparr>stack_addrs = [p]\<rparr> False) = records_for lib u p"
  by (simp add: records_for_eq get_symbols_libbacktrace_concat)

theorem resolution_cascade_witness:
  "get_symbols_libbacktrace
     \<lparr>backtrace_simple = (\<lambda>skip. []),
      backtrace_pcinfo = (\<lambda>p. if p = 1 then [PcinfoCallback p (Some ''a.cpp'') 7 (Some ''f'')]
                               else if p = 2 then [PcinfoCallback p None 0 None]
                               else [PcinfoError ''no debug info'' (- 1)]),
      backtrace_syminfo = (\<lambda>p. if p = 3 then [SyminfoCallback p (Some ''g'')]
                                else [SyminfoCallback p None])\<rparr>
     \<lparr>demangle = (\<lambda>s. s @ ''()''), symbol_name = (\<lambda>p only_name no_pc. ''main'')\<rparr>
     \<lparr>stack_addrs = [1, 2, 3, 4]\<rparr> False =
   ([\<lparr>filename = ''a.cpp'', lineno = 7, functionname = ''f()'', pc = 1\<rparr>,
     \<lparr>filename = '''', lineno = 0, functionname = ''main'', pc = 2\<rparr>,
     \<lparr>filename = '''', lineno = 0, functionname = ''g()'', pc = 3\<rparr>,
     \<lparr>filename = '''', lineno = 0, functionname = '''', pc = 4\<rparr>], [])"
proof -
  let ?lib = "\<lparr>backtrace_simple = (\<lambda>skip. []),
      backtrace_pcinfo = (\<lambda>p. if p = (1::addr) then [PcinfoCallback p (Some ''a.cpp'') 7 (Some ''f'')]
                               else if p = 2 then [PcinfoCallback p None 0 None]
                               else [PcinfoError ''no debug info'' (- 1)]),
      backtrace_syminfo = (\<lambda>p. if p = (3::addr) then [SyminfoCallback p (Some ''g'')]
                                else [SyminfoCallback p None])\<rparr>"
  let ?u = "\<lparr>demangle = (\<lambda>s. s @ ''()''), symbol_name = (\<lambda>p only_name no_pc. ''main'')\<rparr>"
  have r1: "records_for ?lib ?u 1 = [\<lparr>filename = ''a.cpp'', lineno = 7, functionname = ''f()'', pc = 1\<rparr>]"
    using resolution_cascade [of ?lib 1 1 "Some ''a.cpp''" 7 "''f''" ?u] by simp
  have r2: "records_for ?lib ?u 2 = [\<lparr>filename = '''', lineno = 0, functionname = ''main'', pc = 2\<rparr>]"
    using resolution_cascade [of ?lib 2 2 None 0 "''f''" ?u] by simp
  have r3: "records_for ?lib ?u 3 = [\<lparr>filename = '''', lineno = 0, functionname = ''g()'', pc = 3\<rparr>]"
    using resolution_cascade [of ?lib 3 3 None 0 "''f''" ?u "''no debug info''" "''g''"] by simp
  have r4: "records_for ?lib ?u 4 = [\<lparr>filename = '''', lineno = 0, functionname = '''', pc = 4\<rparr>]"
    using resolution_cascade [of ?lib 4 4 None 0 "''f''" ?u "''no debug info''" "''g''"] by simp
  show ?thesis
    by (simp add: get_symbols_libbacktrace_concat r1 r2 r3 r4 log_for_eq)
qed

text \<open>
  Claim C3 as stated fails where the symbol table yields no name: the record's function name
  is empty although \<^verbatim>\<open>util::symbol_name\<close> would return \<open>main\<close> for the address.
\<close>

theorem symbol_table_miss_counterexample:
  "get_symbols_libbacktrace
     \<lparr>backtrace_simple = (\<lambda>skip. []),
      backtrace_pcinfo = (\<lambda>p. [PcinfoError ''no debug info'' (- 1)]),
      backtrace_syminfo = (\<lambda>p. [SyminfoCallback p None])\<rparr>
     \<lparr>demangle = (\<lambda>s. s), symbol_name = (\<lambda>p only_name no_pc. ''main'')\<rparr>
     \<lparr>stack_addrs = [1]\<rparr> False =
     ([\<lparr>filename = '''', lineno = 0, functionname = '''', pc = 1\<rparr>], []) \<and>
   symbol_name \<lparr>demangle = (\<lambda>s. s), symbol_name = (\<lambda>p only_name no_pc. ''main'')\<rparr> 1 False True
     = ''main''"
  by (simp add: get_symbols_libbacktrace_concat records_for_eq log_for_eq)

text \<open>
  Claim C6. With \<^verbatim>\<open>reversed = false\<close> the callback receives the records in capture order
  (most recent call first), with \<^verbatim>\<open>reversed = true\<close> in the reverse of that order, so the
  list delivered for \<^verbatim>\<open>false\<close>, reversed, is the list delivered for \<^verbatim>\<open>true\<close>. Without
  libbacktrace the records are those of the captured addresses, one per address. With
  libbacktrace the records of the addresses are delivered address after address in capture
  order, respectively that whole list reversed; where every address has exactly one record
  these are the records of the captured addresses in capture order, respectively of the
  reversed addresses. The log of the libbacktrace variant does not depend on the order.
\<close>

theorem get_symbols_reversed_is_rev:
  "get_symbols_fallback u this False =
     map (\<lambda>p. \<lparr>filename = '''', lineno = 0, functionname = symbol_name u p False True, pc = p\<rparr>)
       (stack_addrs this) \<and>
   get_symbols_fallback u this True =
     map (\<lambda>p. \<lparr>filename = '''', lineno = 0, functionname = symbol_name u p False True, pc = p\<rparr>)
       (rev (stack_addrs this)) \<and>
   rev (get_symbols_fallback u this False) = get_symbols_fallback u this True \<and>
   fst (get_symbols_libbacktrace lib u this False) =
     concat (map (records_for lib u) (stack_addrs this)) \<and>
   fst (get_symbols_libbacktrace lib u this True) =
     rev (concat (map (records_for lib u) (stack_addrs this))) \<and>
   ((\<forall>p \<in> set (stack_addrs this). length (records_for lib u p) = 1) \<longrightarrow>
      fst (get_symbols_libbacktrace lib u this False) =
        map (\<lambda>p. hd (records_for lib u p)) (stack_addrs this) \<and>
      fst (get_symbols_libbacktrace lib u this True) =
        map (\<lambda>p. hd (records_for lib u p)) (rev (stack_addrs this))) \<and>
   rev (fst (get_symbols_libbacktrace lib u this False)) =
     fst (get_symbols_libbacktrace lib u this True) \<and>
   snd (get_symbols_libbacktrace lib u this False) = snd (get_symbols_libbacktrace lib u this True)"
proof (intro conjI impI)
  show "get_symbols_fallback u this False =
     map (\<lambda>p. \<lparr>filename = '''', lineno = 0, functionname = symbol_name u p False True, pc = p\<rparr>)
       (stack_addrs this)"
    by (simp add: get_symbols_fallback_eq)
  show "get_symbols_fallback u this True =
     map (\<lambda>p. \<lparr>filename = '''', lineno = 0, functionname = symbol_name u p False True, pc = p\<rparr>)
       (rev (stack_addrs this))"
    by (simp add: get_symbols_fallback_eq)
  show "rev (get_symbols_fallback u this False) = get_symbols_fallback u this True"
    by (simp add: get_symbols_fallback_eq rev_map)
  show "fst (get_symbols_libbacktrace lib u this False) =
     concat (map (records_for lib u) (stack_addrs this))"
    by (simp add: get_symbols_libbacktrace_records)
  show "fst (get_symbols_libbacktrace lib u this True) =
     rev (concat (map (records_for lib u) (stack_addrs this)))"
    by (simp add: get_symbols_libbacktrace_records)
  show "rev (fst (get_symbols_libbacktrace lib u this False)) =
     fst (get_symbols_libbacktrace lib u this True)"
    by (simp add: get_symbols_libbacktrace_records)
  show "snd (get_symbols_libbacktrace lib u this False) = snd (get_symbols_libbacktrace lib u this True)"
    by (simp add: get_symbols_libbacktrace_def Let_def)
next
  assume one: "\<forall>p \<in> set (stack_addrs this). length (records_for lib u p) = 1"
  then have c: "concat (map (records_for lib u) (stack_addrs this)) =
      map (\<lambda>p. hd (records_for lib u p)) (stack_addrs this)"
    by (rule concat_singletons)
  show "fst (get_symbols_libbacktrace lib u this False) =
        map (\<lambda>p. hd (records_for lib u p)) (stack_addrs this)"
    by (simp add: get_symbols_libbacktrace_records c)
  show "fst (get_symbols_libbacktrace lib u this True) =
        map (\<lambda>p. hd (records_for lib u p)) (rev (stack_addrs this))"
    by (simp add: get_symbols_libbacktrace_records c rev_map)
qed

theorem get_symbols_reversed_is_rev_witness:
  "map pc (get_symbols_fallback \<lparr>demangle = (\<lambda>s. s), symbol_name = (\<lambda>p only_name no_pc. ''f'')\<rparr>
       \<lparr>stack_addrs = [1, 2]\<rparr> False) = [1, 2] \<and>
   map pc (get_symbols_fallback \<lparr>demangle = (\<lambda>s. s), symbol_name = (\<lambda>p only_name no_pc. ''f'')\<rparr>
       \<lparr>stack_addrs = [1, 2]\<rparr> True) = [2, 1] \<and>
   map pc (fst (get_symbols_libbacktrace
       \<lparr>backtrace_simple = (\<lambda>skip. []),
        backtrace_pcinfo = (\<lambda>p. [PcinfoCallback p None 0 (Some ''g'')]),
        backtrace_syminfo = (\<lambda>p. [])\<rparr>
       \<lparr>demangle = (\<lambda>s. s), symbol_name = (\<lambda>p only_name no_pc. ''f'')\<rparr>
       \<lparr>stack_addrs = [1, 2]\<rparr> False)) = [1, 2] \<and>
   map pc (fst (get_symbols_libbacktrace
       \<lparr>backtrace_simple = (\<lambda>skip. []),
        backtrace_pcinfo = (\<lambda>p. [PcinfoCallback p None 0 (Some ''g'')]),
        backtrace_syminfo = (\<lambda>p. [])\<rparr>
       \<lparr>demangle = (\<lambda>s. s), symbol_name = (\<lambda>p only_name no_pc. ''f'')\<rparr>
       \<lparr>stack_addrs = [1, 2]\<rparr> True)) = [2, 1]"
proof -
  let ?lib = "\<lparr>backtrace_simple = (\<lambda>skip. []),
        backtrace_pcinfo = (\<lambda>p. [PcinfoCallback p None 0 (Some ''g'')]),
        backtrace_syminfo = (\<lambda>p. [])\<rparr>"
  let ?u = "\<lparr>demangle = (\<lambda>s. s), symbol_name = (\<lambda>p only_name no_pc. ''f'')\<rparr>"
  let ?sa = "\<lparr>stack_addrs = [1, 2]\<rparr>"
  have r: "\<And>p. records_for ?lib ?u p =
      [\<lparr>filename = '''', lineno = 0, functionname = ''g'', pc = p\<rparr>]"
    by (simp add: records_for_eq)
  have one: "\<forall>p \<in> set (stack_addrs ?sa). length (records_for ?lib ?u p) = 1"
    by (simp add: r)
  from get_symbols_reversed_is_rev [of ?u ?sa ?lib] one
  show ?thesis by (simp add: r)
qed

text \<open>
  Claim C9. Without libbacktrace every record handed to the callback has an empty file name
  and line 0, its function name is what \<^verbatim>\<open>util::symbol_name(pc, false, true)\<close> returns for
  its address, and the addresses of the records are the captured addresses, in capture
  order or reversed.
\<close>

theorem get_symbols_fallback_only_names:
  "(\<forall>r \<in> set (get_symbols_fallback u this reversed).
      filename r = '''' \<and> lineno r = 0 \<and> functionname r = symbol_name u (pc r) False True) \<and>
   map pc (get_symbols_fallback u this reversed) =
     (if reversed then rev (stack_addrs this) else stack_addrs this)"
  by (auto simp: get_symbols_fallback_eq comp_def)

theorem get_symbols_fallback_only_names_witness:
  "map functionname
     (get_symbols_fallback \<lparr>demangle = id, symbol_name = (\<lambda>p f g. if p = 1 then ''main'' else ''f'')\<rparr>
        \<lparr>stack_addrs = [2, 1]\<rparr> True) = [''main'', ''f''] \<and>
   map filename
     (get_symbols_fallback \<lparr>demangle = id, symbol_name = (\<lambda>p f g. if p = 1 then ''main'' else ''f'')\<rparr>
        \<lparr>stack_addrs = [2, 1]\<rparr> True) = ['''', ''''] \<and>
   map pc
     (get_symbols_fallback \<lparr>demangle = id, symbol_name = (\<lambda>p f g. if p = 1 then ''main'' else ''f'')\<rparr>
        \<lparr>stack_addrs = [2, 1]\<rparr> True) = [1, 2]"
  using get_symbols_fallback_only_names
    [of "\<lparr>demangle = id, symbol_name = (\<lambda>p f g. if p = 1 then ''main'' else ''f'')\<rparr>"
        "\<lparr>stack_addrs = [2, 1]\<rparr>" True]
  by (simp add: get_symbols_fallback_def Let_def name_symbol_def numeral_2_eq_2)


end
